theory Spec2Isabelle
  imports Complex_Main
begin

section \<open>Data model: tables as pandas holds them\<close>

text \<open>
  The program (\<^verbatim>\<open>autolysis.py\<close>) reads a CSV file into a pandas DataFrame and hands
  that one object to every analysis stage. A frame is modelled column by column: a column
  is numeric (\<^verbatim>\<open>int64\<close>/\<^verbatim>\<open>float64\<close>, selected by
  \<^verbatim>\<open>select_dtypes(include=np.number)\<close>), boolean or object. A missing entry (NaN) of
  a numeric column is \<open>None\<close>. Numbers are real numbers: rounding and the infinities of
  IEEE floats are outside the model.
\<close>

datatype column =
    Numeric "real option list"
  | Boolean "bool list"
  | Object "string option list"

record dataframe =
  nrows :: nat
  columns :: "(string \<times> column) list"

fun col_len :: "column \<Rightarrow> nat" where
  "col_len (Numeric xs) = length xs"
| "col_len (Boolean bs) = length bs"
| "col_len (Object ss) = length ss"

fun is_numeric :: "column \<Rightarrow> bool" where
  "is_numeric (Numeric xs) = True"
| "is_numeric (Boolean bs) = False"
| "is_numeric (Object ss) = False"

text \<open>Every column of a frame has one entry per row.\<close>

definition wf_frame :: "dataframe \<Rightarrow> bool" where
  "wf_frame df = list_all (\<lambda>(n, c). col_len c = nrows df) (columns df)"

text \<open>\<^verbatim>\<open>df.empty\<close>: some axis has length 0. \<^verbatim>\<open>df.shape[1]\<close>: the number of columns.\<close>

definition df_empty :: "dataframe \<Rightarrow> bool" where
  "df_empty df = (nrows df = 0 \<or> columns df = [])"

definition shape1 :: "dataframe \<Rightarrow> nat" where
  "shape1 df = length (columns df)"

text \<open>\<^verbatim>\<open>df.select_dtypes(include=np.number)\<close>: the numeric columns, in order, same rows.\<close>

definition select_numeric :: "dataframe \<Rightarrow> dataframe" where
  "select_numeric df = df\<lparr>columns := filter (\<lambda>(n, c). is_numeric c) (columns df)\<rparr>"

fun is_null :: "column \<Rightarrow> nat \<Rightarrow> bool" where
  "is_null (Numeric xs) i = (xs ! i = None)"
| "is_null (Boolean bs) i = False"
| "is_null (Object ss) i = (ss ! i = None)"

fun take_rows :: "nat list \<Rightarrow> column \<Rightarrow> column" where
  "take_rows keep (Numeric xs) = Numeric (map (\<lambda>i. xs ! i) keep)"
| "take_rows keep (Boolean bs) = Boolean (map (\<lambda>i. bs ! i) keep)"
| "take_rows keep (Object ss) = Object (map (\<lambda>i. ss ! i) keep)"

text \<open>\<^verbatim>\<open>df.dropna()\<close>: the rows without a missing entry, in their original order.\<close>

definition complete_rows :: "dataframe \<Rightarrow> nat list" where
  "complete_rows df =
     filter (\<lambda>i. list_all (\<lambda>(n, c). \<not> is_null c i) (columns df)) [0..<nrows df]"

definition drop_null_rows :: "dataframe \<Rightarrow> dataframe" where
  "drop_null_rows df =
     \<lparr>nrows = length (complete_rows df),
      columns = map (\<lambda>(n, c). (n, take_rows (complete_rows df) c)) (columns df)\<rparr>"

section \<open>Outlier detection (\<^verbatim>\<open>outlier_detection\<close>)\<close>

text \<open>
  Arithmetic and comparison on floats that may be NaN: a result is NaN as soon as an
  operand is, and every comparison with NaN is false.
\<close>

fun nan_sub :: "real option \<Rightarrow> real option \<Rightarrow> real option" where
  "nan_sub (Some x) (Some y) = Some (x - y)"
| "nan_sub a b = None"

fun nan_add :: "real option \<Rightarrow> real option \<Rightarrow> real option" where
  "nan_add (Some x) (Some y) = Some (x + y)"
| "nan_add a b = None"

fun nan_scale :: "real \<Rightarrow> real option \<Rightarrow> real option" where
  "nan_scale k (Some x) = Some (k * x)"
| "nan_scale k None = None"

fun nan_less :: "real option \<Rightarrow> real option \<Rightarrow> bool" where
  "nan_less (Some x) (Some y) = (x < y)"
| "nan_less a b = False"

text \<open>
  \<^verbatim>\<open>Series.quantile(q)\<close> with pandas' default linear interpolation: missing entries are
  skipped, the rest sorted, and the value at the fractional position \<open>q * (n - 1)\<close> is
  interpolated between its two neighbours. A column without any value has quantile NaN.
\<close>

definition present :: "real option list \<Rightarrow> real list" where
  "present cells = map the (filter (\<lambda>c. c \<noteq> None) cells)"

definition quantile_values :: "real \<Rightarrow> real list \<Rightarrow> real option" where
  "quantile_values q xs =
     (if xs = [] then None
      else let s = sort xs;
               pos = q * real (length s - 1);
               lo = nat \<lfloor>pos\<rfloor>;
               hi = nat \<lceil>pos\<rceil>
           in Some (s ! lo + (s ! hi - s ! lo) * (pos - real lo)))"

fun cells_of :: "column \<Rightarrow> real option list" where
  "cells_of (Numeric xs) = xs"
| "cells_of (Boolean bs) = map (\<lambda>b. None) bs"
| "cells_of (Object ss) = map (\<lambda>s. None) ss"

definition quantile :: "real \<Rightarrow> column \<Rightarrow> real option" where
  "quantile q c = quantile_values q (present (cells_of c))"

text \<open>
  A pandas Series indexed by column name, and the element-wise operations the source
  applies to frames and series. The operands of each operation below are derived from
  the same frame, so their labels agree position by position.
\<close>

type_synonym series = "(string \<times> real option) list"

definition df_quantile :: "dataframe \<Rightarrow> real \<Rightarrow> series" where
  "df_quantile df q = map (\<lambda>(n, c). (n, quantile q c)) (columns df)"

definition series_sub :: "series \<Rightarrow> series \<Rightarrow> series" where
  "series_sub a b = map (\<lambda>((n, x), (m, y)). (n, nan_sub x y)) (zip a b)"

definition series_add :: "series \<Rightarrow> series \<Rightarrow> series" where
  "series_add a b = map (\<lambda>((n, x), (m, y)). (n, nan_add x y)) (zip a b)"

definition series_scale :: "real \<Rightarrow> series \<Rightarrow> series" where
  "series_scale k a = map (\<lambda>(n, x). (n, nan_scale k x)) a"

type_synonym mask = "(string \<times> bool list) list"

definition df_less :: "dataframe \<Rightarrow> series \<Rightarrow> mask" where
  "df_less df s =
     map (\<lambda>((n, c), (m, y)). (n, map (\<lambda>x. nan_less x y) (cells_of c))) (zip (columns df) s)"

definition df_greater :: "dataframe \<Rightarrow> series \<Rightarrow> mask" where
  "df_greater df s =
     map (\<lambda>((n, c), (m, y)). (n, map (\<lambda>x. nan_less y x) (cells_of c))) (zip (columns df) s)"

definition mask_or :: "mask \<Rightarrow> mask \<Rightarrow> mask" where
  "mask_or a b = map (\<lambda>((n, xs), (m, ys)). (n, map (\<lambda>(x, y). x \<or> y) (zip xs ys))) (zip a b)"

definition mask_sum :: "mask \<Rightarrow> (string \<times> int) list" where
  "mask_sum a = map (\<lambda>(n, bs). (n, int (length (filter (\<lambda>b. b) bs)))) a"

text \<open>
  The body of \<^verbatim>\<open>outlier_detection\<close> after the numeric columns have been selected:
  \<^verbatim>\<open>Q1\<close>, \<^verbatim>\<open>Q3\<close>, \<^verbatim>\<open>IQR\<close> and the count, per column, of the entries
  below \<^verbatim>\<open>Q1 - 1.5 * IQR\<close> or above \<^verbatim>\<open>Q3 + 1.5 * IQR\<close>.
\<close>

definition outlier_counts :: "dataframe \<Rightarrow> (string \<times> int) list" where
  "outlier_counts numeric_data =
     (let Q1 = df_quantile numeric_data (1/4);
          Q3 = df_quantile numeric_data (3/4);
          IQR = series_sub Q3 Q1
      in mask_sum (mask_or (df_less numeric_data (series_sub Q1 (series_scale (3/2) IQR)))
                           (df_greater numeric_data (series_add Q3 (series_scale (3/2) IQR)))))"

text \<open>The same count for one column, entry by entry.\<close>

definition is_outlier :: "column \<Rightarrow> real option \<Rightarrow> bool" where
  "is_outlier c x =
     (let Q1 = quantile (1/4) c; Q3 = quantile (3/4) c; IQR = nan_sub Q3 Q1
      in nan_less x (nan_sub Q1 (nan_scale (3/2) IQR))
         \<or> nan_less (nan_add Q3 (nan_scale (3/2) IQR)) x)"

definition column_outliers :: "column \<Rightarrow> int" where
  "column_outliers c = int (length (filter (is_outlier c) (cells_of c)))"


section \<open>The world the program runs in\<close>

text \<open>
  Exceptions are values. \<open>SystemExit c\<close> is what \<^verbatim>\<open>sys.exit(c)\<close> raises; the others are
  the exceptions that pandas, scikit-learn, scipy, matplotlib, requests and the
  interpreter raise in the places named below.
\<close>

datatype exn =
    SystemExit nat
  | ValueError
  | IndexError
  | KeyError
  | TypeError
  | AttributeError
  | JSONDecodeError
  | OSError

type_synonym addr = nat

type_synonym matrix = "real list list"

datatype json =
    JNull
  | JBool bool
  | JNum real
  | JStr string
  | JArr "json list"
  | JObj "(string \<times> json) list"

text \<open>What a figure shows, and what a file holds.\<close>

datatype figure =
    Heatmap "real option list list"
  | Scatterplot "real option list" "real option list" "real option list option"
  | Dendrogram matrix

datatype file_content = Image figure | Text string

text \<open>
  The numerical routines come from third-party libraries whose code is not part of the
  repository. They are parameters of the model: every theorem below holds for whatever
  these routines compute, and for whichever inputs they reject.
  \<^item> \<open>describe\<close>: \<^verbatim>\<open>DataFrame.describe(include='all').to_dict()\<close>, as text;
  \<^item> \<open>corr\<close>: \<^verbatim>\<open>DataFrame.corr()\<close>;
  \<^item> \<open>scaler_fit_transform\<close>: \<^verbatim>\<open>StandardScaler().fit_transform\<close>;
  \<^item> \<open>pca_fit_transform n\<close>: \<^verbatim>\<open>PCA(n_components=n).fit_transform\<close>;
  \<^item> \<open>dbscan_fit_predict eps min_samples\<close>: \<^verbatim>\<open>DBSCAN(eps, min_samples).fit_predict\<close>;
  \<^item> \<open>linkage\<close>: \<^verbatim>\<open>scipy.cluster.hierarchy.linkage\<close> with its method name;
  \<^item> \<open>py_str\<close>: the interpreter's \<^verbatim>\<open>str()\<close> of a value that is not a string.
\<close>

record lib =
  describe :: "dataframe \<Rightarrow> string"
  corr :: "dataframe \<Rightarrow> real option list list"
  scaler_fit_transform :: "matrix \<Rightarrow> exn + matrix"
  pca_fit_transform :: "nat \<Rightarrow> matrix \<Rightarrow> exn + matrix"
  dbscan_fit_predict :: "real \<Rightarrow> nat \<Rightarrow> matrix \<Rightarrow> exn + int list"
  linkage :: "matrix \<Rightarrow> string \<Rightarrow> exn + matrix"
  py_str :: "json \<Rightarrow> string"

text \<open>
  The environment of one run: the credential, what reading a path as CSV gives (\<open>None\<close>
  when opening, decoding or parsing fails), the outcome of saving a figure to a path,
  the outcome of the HTTP request (no reply, or a status code with a body that may not be
  JSON), and the outcome of writing a text file.
\<close>

datatype http_outcome =
    Connection_error
  | Response nat "json option"

text \<open>
  A write that fails can leave anything at its path (nothing, the old file, a truncated
  one): the environment says what.
\<close>

datatype io_outcome = Done | Failed "file_content option"

record env =
  AIPROXY_TOKEN :: "string option"
  read_csv :: "string \<Rightarrow> dataframe option"
  savefig :: "string \<Rightarrow> io_outcome"
  http_reply :: http_outcome
  open_write :: "string \<Rightarrow> io_outcome"

text \<open>
  The calls that leave the program, in the order they are made, with their arguments.
\<close>

datatype event =
    Fit_scaler matrix
  | Fit_PCA nat matrix
  | Fit_DBSCAN real nat matrix
  | Fit_linkage matrix string
  | Http_post string "(string \<times> int) list" "(string \<times> string option) list"

text \<open>
  The mutable state: the DataFrame objects by address (the addresses below \<open>next_addr\<close>
  are in use), the files of the working directory, and the calls made so far. Python
  variables hold addresses, so two variables can name one frame, and an assignment into
  a frame is seen through every name of it.
\<close>

record world =
  frames :: "addr \<Rightarrow> dataframe"
  next_addr :: addr
  files :: "string \<Rightarrow> file_content option"
  calls :: "event list"

definition alloc :: "dataframe \<Rightarrow> world \<Rightarrow> addr \<times> world" where
  "alloc df w =
     (next_addr w, w\<lparr>frames := (frames w)(next_addr w := df), next_addr := Suc (next_addr w)\<rparr>)"

definition record_call :: "event \<Rightarrow> world \<Rightarrow> world" where
  "record_call ev w = w\<lparr>calls := calls w @ [ev]\<rparr>"

text \<open>\<^verbatim>\<open>select_dtypes\<close> and \<^verbatim>\<open>dropna\<close> return a new frame object.\<close>

definition select_dtypes :: "world \<Rightarrow> addr \<Rightarrow> addr \<times> world" where
  "select_dtypes w a = alloc (select_numeric (frames w a)) w"

definition dropna :: "world \<Rightarrow> addr \<Rightarrow> addr \<times> world" where
  "dropna w a = alloc (drop_null_rows (frames w a)) w"

text \<open>
  \<^verbatim>\<open>df[name] = values\<close> changes the frame object in place: it replaces the column of
  that name or appends a new last column, and raises \<^verbatim>\<open>ValueError\<close> when the number
  of values is not the number of rows.
\<close>

definition assign_column :: "dataframe \<Rightarrow> string \<Rightarrow> column \<Rightarrow> dataframe" where
  "assign_column df name c =
     (if name \<in> set (map fst (columns df))
      then df\<lparr>columns := map (\<lambda>(n, x). if n = name then (n, c) else (n, x)) (columns df)\<rparr>
      else df\<lparr>columns := columns df @ [(name, c)]\<rparr>)"

definition setitem :: "world \<Rightarrow> addr \<Rightarrow> string \<Rightarrow> column \<Rightarrow> (exn + unit) \<times> world" where
  "setitem w a name c =
     (if col_len c \<noteq> nrows (frames w a) then (Inl ValueError, w)
      else (Inr (), w\<lparr>frames := (frames w)(a := assign_column (frames w a) name c)\<rparr>))"

text \<open>\<^verbatim>\<open>df.iloc[:, j]\<close>, \<^verbatim>\<open>df[name]\<close> and \<^verbatim>\<open>array[:, j]\<close>.\<close>

definition iloc_col :: "dataframe \<Rightarrow> nat \<Rightarrow> exn + real option list" where
  "iloc_col df j =
     (if j < length (columns df) then Inr (cells_of (snd (columns df ! j))) else Inl IndexError)"

definition getitem :: "dataframe \<Rightarrow> string \<Rightarrow> exn + real option list" where
  "getitem df name =
     (case map_of (columns df) name of None \<Rightarrow> Inl KeyError | Some c \<Rightarrow> Inr (cells_of c))"

definition array_col :: "matrix \<Rightarrow> nat \<Rightarrow> exn + real option list" where
  "array_col X j =
     (if list_all (\<lambda>r. j < length r) X then Inr (map (\<lambda>r. Some (r ! j)) X) else Inl IndexError)"

text \<open>
  The frame as the two-dimensional array the libraries receive, row by row. It is only
  taken of frames of numeric columns without missing entries.
\<close>

definition to_numpy :: "dataframe \<Rightarrow> matrix" where
  "to_numpy df = map (\<lambda>i. map (\<lambda>(n, c). the (cells_of c ! i)) (columns df)) [0..<nrows df]"


section \<open>The analysis stages\<close>

text \<open>
  Each stage takes the world and the address of the table and returns its result (or the
  exception it raises) with the new world. No stage of the source has a
  \<^verbatim>\<open>try\<close> block: an exception raised inside a stage leaves the stage.
\<close>

record analysis =
  summary :: string
  missing_values :: "(string \<times> int) list"
  column_info :: "(string \<times> string) list"

fun dtype_of :: "column \<Rightarrow> string" where
  "dtype_of (Numeric xs) = ''number''"
| "dtype_of (Boolean bs) = ''bool''"
| "dtype_of (Object ss) = ''object''"

definition null_count :: "column \<Rightarrow> int" where
  "null_count c = int (length (filter (is_null c) [0..<col_len c]))"

definition basic_analysis :: "lib \<Rightarrow> world \<Rightarrow> addr \<Rightarrow> analysis" where
  "basic_analysis L w data =
     \<lparr>summary = describe L (frames w data),
      missing_values = map (\<lambda>(n, c). (n, null_count c)) (columns (frames w data)),
      column_info = map (\<lambda>(n, c). (n, dtype_of c)) (columns (frames w data))\<rparr>"

definition outlier_detection :: "world \<Rightarrow> addr \<Rightarrow> (string \<times> int) list \<times> world" where
  "outlier_detection w data =
     (let (numeric_data, w1) = select_dtypes w data
      in (outlier_counts (frames w1 numeric_data), w1))"

definition save_plot :: "env \<Rightarrow> world \<Rightarrow> figure \<Rightarrow> string \<Rightarrow> (exn + string) \<times> world" where
  "save_plot E w fig plot_name =
     (let plot_path = plot_name @ ''.png''
      in case savefig E plot_path of
           Done \<Rightarrow> (Inr plot_path, w\<lparr>files := (files w)(plot_path := Some (Image fig))\<rparr>)
         | Failed left \<Rightarrow> (Inl OSError, w\<lparr>files := (files w)(plot_path := left)\<rparr>))"

text \<open>A stage returns \<^verbatim>\<open>None\<close> ("not applicable") or the path of the image it saved.\<close>

definition saved :: "(exn + string) \<times> world \<Rightarrow> (exn + string option) \<times> world" where
  "saved r = (case r of (Inl e, w) \<Rightarrow> (Inl e, w) | (Inr p, w) \<Rightarrow> (Inr (Some p), w))"

definition generate_correlation_matrix ::
  "lib \<Rightarrow> env \<Rightarrow> world \<Rightarrow> addr \<Rightarrow> (exn + string option) \<times> world" where
  "generate_correlation_matrix L E w data =
     (let (numeric_data, w1) = select_dtypes w data
      in if df_empty (frames w1 numeric_data) then (Inr None, w1)
         else saved (save_plot E w1 (Heatmap (corr L (frames w1 numeric_data)))
                       ''correlation_matrix''))"

definition generate_pca_plot ::
  "lib \<Rightarrow> env \<Rightarrow> world \<Rightarrow> addr \<Rightarrow> (exn + string option) \<times> world" where
  "generate_pca_plot L E w data =
     (let (selected, w1) = select_dtypes w data;
          (numeric_data, w2) = dropna w1 selected
      in if shape1 (frames w2 numeric_data) < 2 then (Inr None, w2)
         else
           (let X = to_numpy (frames w2 numeric_data);
                w3 = record_call (Fit_scaler X) w2
            in case scaler_fit_transform L X of
                 Inl e \<Rightarrow> (Inl e, w3)
               | Inr scaled \<Rightarrow>
                   (let w4 = record_call (Fit_PCA 2 scaled) w3
                    in case pca_fit_transform L 2 scaled of
                         Inl e \<Rightarrow> (Inl e, w4)
                       | Inr pca_result \<Rightarrow>
                           (case array_col pca_result 0 of
                              Inl e \<Rightarrow> (Inl e, w4)
                            | Inr x \<Rightarrow>
                                (case array_col pca_result 1 of
                                   Inl e \<Rightarrow> (Inl e, w4)
                                 | Inr y \<Rightarrow>
                                     saved (save_plot E w4 (Scatterplot x y None)
                                              ''pca_plot''))))))"

text \<open>
  \<^verbatim>\<open>dbscan_clustering\<close>, in two parts. The first is the source up to
  \<^verbatim>\<open>numeric_data['cluster'] = clusters\<close>: it returns the address of the frame that now
  carries the labels, or \<^verbatim>\<open>None\<close> when there is no numeric data. The second
  (\<open>plot_clusters\<close>) draws that frame and saves the figure.
\<close>

definition dbscan_labels :: "lib \<Rightarrow> world \<Rightarrow> addr \<Rightarrow> (exn + addr option) \<times> world" where
  "dbscan_labels L w data =
     (let (selected, w1) = select_dtypes w data;
          (numeric_data, w2) = dropna w1 selected
      in if df_empty (frames w2 numeric_data) then (Inr None, w2)
         else
           (let X = to_numpy (frames w2 numeric_data);
                w3 = record_call (Fit_scaler X) w2
            in case scaler_fit_transform L X of
                 Inl e \<Rightarrow> (Inl e, w3)
               | Inr scaled_data \<Rightarrow>
                   (let w4 = record_call (Fit_DBSCAN (1/2) 5 scaled_data) w3
                    in case dbscan_fit_predict L (1/2) 5 scaled_data of
                         Inl e \<Rightarrow> (Inl e, w4)
                       | Inr clusters \<Rightarrow>
                           (case setitem w4 numeric_data ''cluster''
                                   (Numeric (map (\<lambda>l. Some (real_of_int l)) clusters)) of
                              (Inl e, w5) \<Rightarrow> (Inl e, w5)
                            | (Inr u, w5) \<Rightarrow> (Inr (Some numeric_data), w5)))))"

definition plot_clusters ::
  "env \<Rightarrow> world \<Rightarrow> dataframe \<Rightarrow> (exn + string option) \<times> world" where
  "plot_clusters E w numeric_data =
     (case iloc_col numeric_data 0 of
        Inl e \<Rightarrow> (Inl e, w)
      | Inr x \<Rightarrow>
          (case iloc_col numeric_data 1 of
             Inl e \<Rightarrow> (Inl e, w)
           | Inr y \<Rightarrow>
               (case getitem numeric_data ''cluster'' of
                  Inl e \<Rightarrow> (Inl e, w)
                | Inr hue \<Rightarrow>
                    saved (save_plot E w (Scatterplot x y (Some hue)) ''dbscan_clusters''))))"

definition dbscan_clustering ::
  "lib \<Rightarrow> env \<Rightarrow> world \<Rightarrow> addr \<Rightarrow> (exn + string option) \<times> world" where
  "dbscan_clustering L E w data =
     (case dbscan_labels L w data of
        (Inl e, w5) \<Rightarrow> (Inl e, w5)
      | (Inr None, w2) \<Rightarrow> (Inr None, w2)
      | (Inr (Some numeric_data), w5) \<Rightarrow> plot_clusters E w5 (frames w5 numeric_data))"

definition hierarchical_clustering ::
  "lib \<Rightarrow> env \<Rightarrow> world \<Rightarrow> addr \<Rightarrow> (exn + string option) \<times> world" where
  "hierarchical_clustering L E w data =
     (let (selected, w1) = select_dtypes w data;
          (numeric_data, w2) = dropna w1 selected
      in if df_empty (frames w2 numeric_data) then (Inr None, w2)
         else
           (let X = to_numpy (frames w2 numeric_data);
                w3 = record_call (Fit_linkage X ''ward'') w2
            in case linkage L X ''ward'' of
                 Inl e \<Rightarrow> (Inl e, w3)
               | Inr linked \<Rightarrow>
                   saved (save_plot E w3 (Dendrogram linked) ''hierarchical_clustering'')))"


section \<open>Narrative, report and the orchestrator\<close>

text \<open>
  The three steps of the source that do have a \<^verbatim>\<open>try\<close> block: loading the table and
  saving the report turn any exception into \<^verbatim>\<open>sys.exit(1)\<close>; the HTTP request turns a
  \<^verbatim>\<open>RequestException\<close> (no connection, or a status from 400 to 599 at
  \<^verbatim>\<open>raise_for_status\<close>) into a fixed sentence. Reading the reply is outside that
  \<^verbatim>\<open>try\<close> block.
\<close>

definition load_data :: "env \<Rightarrow> world \<Rightarrow> string \<Rightarrow> (exn + addr) \<times> world" where
  "load_data E w file_path =
     (case read_csv E file_path of
        None \<Rightarrow> (Inl (SystemExit 1), w)
      | Some df \<Rightarrow> (case alloc df w of (data, w1) \<Rightarrow> (Inr data, w1)))"

fun py_get :: "json \<Rightarrow> string \<Rightarrow> json \<Rightarrow> exn + json" where
  "py_get (JObj kvs) k d = Inr (case map_of kvs k of None \<Rightarrow> d | Some v \<Rightarrow> v)"
| "py_get j k d = Inl AttributeError"

fun py_first :: "json \<Rightarrow> exn + json" where
  "py_first (JArr []) = Inl IndexError"
| "py_first (JArr (x # xs)) = Inr x"
| "py_first (JStr []) = Inl IndexError"
| "py_first (JStr (c # cs)) = Inr (JStr [c])"
| "py_first (JObj kvs) = Inl KeyError"
| "py_first j = Inl TypeError"

definition and_then :: "exn + 'a \<Rightarrow> ('a \<Rightarrow> exn + 'b) \<Rightarrow> exn + 'b" where
  "and_then r f = (case r of Inl e \<Rightarrow> Inl e | Inr x \<Rightarrow> f x)"

definition unavailable :: string where
  "unavailable = ''Error: Unable to generate narrative. Please check the AI service.''"

definition reply_content :: "json \<Rightarrow> exn + json" where
  "reply_content body =
     and_then (py_get body ''choices'' (JArr [JObj []])) (\<lambda>choices.
     and_then (py_first choices) (\<lambda>choice.
     and_then (py_get choice ''message'' (JObj [])) (\<lambda>message.
     py_get message ''content'' (JStr ''No narrative generated.''))))"

definition get_ai_story ::
  "env \<Rightarrow> world \<Rightarrow> string \<Rightarrow> (string \<times> int) list \<Rightarrow> (string \<times> string option) list
     \<Rightarrow> (exn + json) \<times> world" where
  "get_ai_story E w dataset_summary dataset_info visualizations =
     (let w1 = record_call (Http_post dataset_summary dataset_info visualizations) w
      in case http_reply E of
           Connection_error \<Rightarrow> (Inr (JStr unavailable), w1)
         | Response status body \<Rightarrow>
             if 400 \<le> status \<and> status < 600 then (Inr (JStr unavailable), w1)
             else (case body of
                     None \<Rightarrow> (Inl JSONDecodeError, w1)
                   | Some j \<Rightarrow> (reply_content j, w1)))"

text \<open>\<^verbatim>\<open>not v\<close> and \<^verbatim>\<open>f"{v}"\<close> for the value the reply gave.\<close>

fun falsy :: "json \<Rightarrow> bool" where
  "falsy JNull = True"
| "falsy (JBool b) = (\<not> b)"
| "falsy (JNum x) = (x = 0)"
| "falsy (JStr s) = (s = [])"
| "falsy (JArr xs) = (xs = [])"
| "falsy (JObj kvs) = (kvs = [])"

fun format_value :: "lib \<Rightarrow> json \<Rightarrow> string" where
  "format_value L (JStr s) = s"
| "format_value L j = py_str L j"

definition save_readme :: "env \<Rightarrow> world \<Rightarrow> string \<Rightarrow> (exn + unit) \<times> world" where
  "save_readme E w content =
     (case open_write E ''README.md'' of
        Done \<Rightarrow> (Inr (), w\<lparr>files := (files w)(''README.md'' := Some (Text content))\<rparr>)
      | Failed left \<Rightarrow> (Inl (SystemExit 1), w\<lparr>files := (files w)(''README.md'' := left)\<rparr>))"

text \<open>
  \<^verbatim>\<open>analyze_and_generate_output\<close>. The four entries of \<^verbatim>\<open>image_paths\<close> are
  evaluated in the order they are written; the first stage that raises ends the function.
\<close>

definition render_all ::
  "lib \<Rightarrow> env \<Rightarrow> world \<Rightarrow> addr \<Rightarrow> (exn + (string \<times> string option) list) \<times> world" where
  "render_all L E w data =
     (case generate_correlation_matrix L E w data of
        (Inl e, w1) \<Rightarrow> (Inl e, w1)
      | (Inr cm, w1) \<Rightarrow>
     (case generate_pca_plot L E w1 data of
        (Inl e, w2) \<Rightarrow> (Inl e, w2)
      | (Inr pp, w2) \<Rightarrow>
     (case dbscan_clustering L E w2 data of
        (Inl e, w3) \<Rightarrow> (Inl e, w3)
      | (Inr db, w3) \<Rightarrow>
     (case hierarchical_clustering L E w3 data of
        (Inl e, w4) \<Rightarrow> (Inl e, w4)
      | (Inr hc, w4) \<Rightarrow>
          (Inr [(''correlation_matrix'', cm), (''pca_plot'', pp),
                (''dbscan_clusters'', db), (''hierarchical_clustering'', hc)], w4)))))"

definition narrate_and_save ::
  "lib \<Rightarrow> env \<Rightarrow> world \<Rightarrow> analysis \<Rightarrow> (string \<times> string option) list
     \<Rightarrow> (exn + json \<times> (string \<times> string option) list) \<times> world" where
  "narrate_and_save L E w a image_paths =
     (case get_ai_story E w (summary a) (missing_values a) image_paths of
        (Inl e, w1) \<Rightarrow> (Inl e, w1)
      | (Inr told, w1) \<Rightarrow>
          (let narrative =
                 (if falsy told
                  then JStr ''Error: Narrative generation failed. Please verify the AI service.''
                  else told)
           in case save_readme E w1 (''Dataset Analysis: '' @ format_value L narrative) of
                (Inl e, w2) \<Rightarrow> (Inl e, w2)
              | (Inr u, w2) \<Rightarrow> (Inr (narrative, image_paths), w2)))"

definition analyze_and_generate_output ::
  "lib \<Rightarrow> env \<Rightarrow> world \<Rightarrow> string
     \<Rightarrow> (exn + json \<times> (string \<times> string option) list) \<times> world" where
  "analyze_and_generate_output L E w file_path =
     (case load_data E w file_path of
        (Inl e, w0) \<Rightarrow> (Inl e, w0)
      | (Inr data, w0) \<Rightarrow>
          (let a = basic_analysis L w0 data;
               (outliers, w1) = outlier_detection w0 data
           in case render_all L E w1 data of
                (Inl e, w2) \<Rightarrow> (Inl e, w2)
              | (Inr image_paths, w2) \<Rightarrow> narrate_and_save L E w2 a image_paths))"

text \<open>
  The script: the credential check at import, \<^verbatim>\<open>main\<close>, and the exit status of the
  process (the code of \<^verbatim>\<open>sys.exit\<close>, 1 for an exception nobody caught, 0 otherwise).
\<close>

definition main ::
  "lib \<Rightarrow> env \<Rightarrow> world \<Rightarrow> string list
     \<Rightarrow> (exn + json \<times> (string \<times> string option) list) \<times> world" where
  "main L E w argv =
     (if length argv \<noteq> 2 then (Inl (SystemExit 1), w)
      else analyze_and_generate_output L E w (argv ! 1))"

definition run_script :: "lib \<Rightarrow> env \<Rightarrow> world \<Rightarrow> string list \<Rightarrow> nat \<times> world" where
  "run_script L E w argv =
     (if AIPROXY_TOKEN E = None \<or> AIPROXY_TOKEN E = Some [] then (1, w)
      else case main L E w argv of
             (Inl (SystemExit c), w') \<Rightarrow> (c, w')
           | (Inl e, w') \<Rightarrow> (1, w')
           | (Inr r, w') \<Rightarrow> (0, w'))"


section \<open>Observations on a run\<close>

text \<open>The matrices handed to each library routine, in call order, and the requests sent.\<close>

fun pca_inputs :: "event list \<Rightarrow> matrix list" where
  "pca_inputs [] = []"
| "pca_inputs (Fit_PCA n X # evs) = X # pca_inputs evs"
| "pca_inputs (ev # evs) = pca_inputs evs"

fun dbscan_inputs :: "event list \<Rightarrow> (real \<times> nat \<times> matrix) list" where
  "dbscan_inputs [] = []"
| "dbscan_inputs (Fit_DBSCAN eps k X # evs) = (eps, k, X) # dbscan_inputs evs"
| "dbscan_inputs (ev # evs) = dbscan_inputs evs"

fun linkage_inputs :: "event list \<Rightarrow> matrix list" where
  "linkage_inputs [] = []"
| "linkage_inputs (Fit_linkage X m # evs) = X # linkage_inputs evs"
| "linkage_inputs (ev # evs) = linkage_inputs evs"

fun http_posts :: "event list \<Rightarrow> nat" where
  "http_posts [] = 0"
| "http_posts (Http_post s m v # evs) = Suc (http_posts evs)"
| "http_posts (ev # evs) = http_posts evs"

section \<open>Concrete inputs\<close>

text \<open>
  A library instance on which the program can be evaluated. Its scaler is the
  standardisation of each column to zero mean and unit variance (population variance, a
  constant column left at zero), and its routines reject the degenerate inputs that
  scikit-learn and scipy reject: no sample for the scaler, fewer samples or features than
  components for the PCA, fewer than two observations for the linkage. With fewer than
  \<open>min_samples\<close> rows no neighbourhood is dense, so every row is noise (label \<open>-1\<close>). The
  other values are placeholders; no theorem about an arbitrary library depends on them.
\<close>

definition column_mean :: "real list \<Rightarrow> real" where
  "column_mean xs = sum_list xs / real (length xs)"

definition column_scale :: "real list \<Rightarrow> real" where
  "column_scale xs =
     (let v = sum_list (map (\<lambda>x. (x - column_mean xs)\<^sup>2) xs) / real (length xs)
      in if v = 0 then 1 else sqrt v)"

definition standardize :: "matrix \<Rightarrow> exn + matrix" where
  "standardize X =
     (if X = [] then Inl ValueError
      else Inr (map (\<lambda>r. map (\<lambda>j. (r ! j - column_mean (map (\<lambda>s. s ! j) X))
                                     / column_scale (map (\<lambda>s. s ! j) X)) [0..<length r]) X))"

definition test_lib :: lib where
  "test_lib =
     \<lparr>describe = (\<lambda>df. ''summary''),
      corr = (\<lambda>df. map (\<lambda>c. map (\<lambda>d. None) (columns df)) (columns df)),
      scaler_fit_transform = standardize,
      pca_fit_transform =
        (\<lambda>n X. if length X < n \<or> \<not> list_all (\<lambda>r. n \<le> length r) X then Inl ValueError
                else Inr (map (take n) X)),
      dbscan_fit_predict = (\<lambda>eps k X. Inr (map (\<lambda>r. - 1) X)),
      linkage = (\<lambda>X m. if length X < 2 then Inl ValueError else Inr []),
      py_str = (\<lambda>j. ''value'')\<rparr>"


text \<open>
  A world with no frame and no file, and an environment in which the credential is set,
  \<^verbatim>\<open>data.csv\<close> holds the given table, every file can be written and the service
  answers with a narrative.
\<close>

definition world0 :: world where
  "world0 = \<lparr>frames = (\<lambda>a. \<lparr>nrows = 0, columns = []\<rparr>), next_addr = 0,
             files = (\<lambda>p. None), calls = []\<rparr>"

definition test_env :: "dataframe \<Rightarrow> env" where
  "test_env df =
     \<lparr>AIPROXY_TOKEN = Some ''token'',
      read_csv = (\<lambda>p. if p = ''data.csv'' then Some df else None),
      savefig = (\<lambda>p. Done),
      http_reply =
        Response 200
          (Some (JObj [(''choices'', JArr [JObj [(''message'',
                   JObj [(''content'', JStr ''A story.'')])]])])),
      open_write = (\<lambda>p. Done)\<rparr>"

definition table_text :: dataframe where
  "table_text = \<lparr>nrows = 2, columns = [(''name'', Object [Some ''a'', Some ''b''])]\<rparr>"

definition table_one :: dataframe where
  "table_one = \<lparr>nrows = 1, columns = [(''x'', Numeric [Some 1])]\<rparr>"

definition table_row :: dataframe where
  "table_row = \<lparr>nrows = 1, columns = [(''x'', Numeric [Some 1]), (''y'', Numeric [Some 2])]\<rparr>"

definition table_gap :: dataframe where
  "table_gap = \<lparr>nrows = 2, columns = [(''x'', Numeric [Some 1, None]), (''y'', Numeric [None, Some 2])]\<rparr>"

definition table_pair :: dataframe where
  "table_pair =
     \<lparr>nrows = 2, columns = [(''x'', Numeric [Some 0, Some 2]), (''y'', Numeric [Some 0, Some 2])]\<rparr>"

definition table_spike :: dataframe where
  "table_spike =
     \<lparr>nrows = 5,
      columns = [(''name'', Object [Some ''a'', None, Some ''c'', Some ''d'', Some ''e'']),
                 (''x'', Numeric [Some 1, Some 1, Some 5, Some 1, Some 1]),
                 (''c'', Numeric [Some 7, Some 7, None, Some 7, Some 7])]\<rparr>"

text \<open>
  Environments in which one thing goes wrong: the correlation figure cannot be saved; the
  service cannot be reached; the service cannot be reached and the report cannot be
  written.
\<close>

definition env_no_heatmap :: "dataframe \<Rightarrow> env" where
  "env_no_heatmap df =
     (test_env df)\<lparr>savefig := (\<lambda>p. if p = ''correlation_matrix.png'' then Failed None else Done)\<rparr>"

definition env_offline :: "dataframe \<Rightarrow> env" where
  "env_offline df = (test_env df)\<lparr>http_reply := Connection_error\<rparr>"

definition env_offline_readonly :: "dataframe \<Rightarrow> env" where
  "env_offline_readonly df =
     (test_env df)\<lparr>http_reply := Connection_error, open_write := (\<lambda>p. Failed None)\<rparr>"

text \<open>The world in which the given table is the only frame, at address 0.\<close>

definition world_of :: "dataframe \<Rightarrow> world" where
  "world_of df = snd (alloc df world0)"


section \<open>The outlier report\<close>

lemma zip_map_same: "zip (map f xs) (map g xs) = map (\<lambda>x. (f x, g x)) xs"
  by (induction xs) auto

lemma zip_self_map: "zip xs (map g xs) = map (\<lambda>x. (x, g x)) xs"
  by (induction xs) auto

lemma count_true_map: "length (filter (\<lambda>b. b) (map p xs)) = length (filter p xs)"
  by (induction xs) auto

lemma outlier_counts_columnwise:
  "outlier_counts df = map (\<lambda>(n, c). (n, column_outliers c)) (columns df)"
  unfolding outlier_counts_def Let_def df_quantile_def series_sub_def series_add_def
    series_scale_def df_less_def df_greater_def mask_or_def mask_sum_def
    column_outliers_def is_outlier_def
  by (simp add: zip_map_same zip_self_map comp_def case_prod_beta count_true_map)

lemma outlier_detection_report:
  "fst (outlier_detection w data) =
     map (\<lambda>(n, c). (n, column_outliers c))
       (filter (\<lambda>(n, c). is_numeric c) (columns (frames w data)))"
  by (simp add: outlier_detection_def select_dtypes_def alloc_def select_numeric_def
      outlier_counts_columnwise)







lemma column_outliers_bounds: "0 \<le> column_outliers c \<and> column_outliers c \<le> int (col_len c)"
  by (cases c) (simp_all add: column_outliers_def)

text \<open>
  Claim C6. The outlier report has one entry per numeric column of the table, and every
  count in it is at least 0 and at most the number of rows of the table.
\<close>

theorem outlier_counts_bounded:
  assumes "wf_frame (frames w data)"
  shows "map fst (fst (outlier_detection w data))
           = map fst (filter (\<lambda>(n, c). is_numeric c) (columns (frames w data)))
       \<and> (\<forall>(n, k) \<in> set (fst (outlier_detection w data)).
            0 \<le> k \<and> k \<le> int (nrows (frames w data)))"
proof -
  have len: "col_len c = nrows (frames w data)" if "(n, c) \<in> set (columns (frames w data))" for n c
    using assms that by (auto simp: wf_frame_def list_all_iff)
  have names: "map fst (fst (outlier_detection w data))
           = map fst (filter (\<lambda>(n, c). is_numeric c) (columns (frames w data)))"
    by (simp add: outlier_detection_report comp_def case_prod_beta)
  have bound: "0 \<le> k \<and> k \<le> int (nrows (frames w data))"
    if "(n, k) \<in> set (fst (outlier_detection w data))" for n k
  proof -
    from that have "(n, k) \<in> (\<lambda>(n, c). (n, column_outliers c)) ` set (columns (frames w data))"
      unfolding outlier_detection_report by auto
    then obtain c where c: "(n, c) \<in> set (columns (frames w data))"
      and k: "k = column_outliers c"
      by auto
    show ?thesis using column_outliers_bounds [of c] len [OF c] k by simp
  qed
  show ?thesis using names bound by blast
qed



theorem outlier_counts_bounded_witness:
  "wf_frame (frames (world_of table_spike) 0)
   \<and> map fst (fst (outlier_detection (world_of table_spike) 0)) = [''x'', ''c'']
   \<and> list_all (\<lambda>(n, k). 0 \<le> k \<and> k \<le> 5) (fst (outlier_detection (world_of table_spike) 0))"
proof -
  have wf: "wf_frame (frames (world_of table_spike) 0)"
    by (simp add: wf_frame_def world_of_def alloc_def world0_def table_spike_def)
  have names: "map fst (filter (\<lambda>(n, c). is_numeric c)
                   (columns (frames (world_of table_spike) 0))) = [''x'', ''c'']"
    and rows: "int (nrows (frames (world_of table_spike) 0)) = 5"
    by (simp_all add: world_of_def alloc_def world0_def table_spike_def)
  show ?thesis
    using wf outlier_counts_bounded [OF wf, unfolded names rows]
    unfolding list_all_iff by blast
qed


section \<open>The rendering stages\<close>

lemma saved_fst: "fst (saved r) = (case fst r of Inl e \<Rightarrow> Inl e | Inr p \<Rightarrow> Inr (Some p))"
  by (cases r) (auto simp: saved_def split: sum.splits)

lemma saved_snd: "snd (saved r) = snd r"
  by (cases r) (auto simp: saved_def split: sum.splits)

lemma save_plot_frames:
  "frames (snd (save_plot E w fig name)) = frames w"
  "next_addr (snd (save_plot E w fig name)) = next_addr w"
  "calls (snd (save_plot E w fig name)) = calls w"
  by (simp_all add: save_plot_def Let_def split: io_outcome.splits)

lemma save_plot_files:
  "p \<noteq> name @ ''.png'' \<Longrightarrow> files (snd (save_plot E w fig name)) p = files w p"
  by (simp add: save_plot_def Let_def split: io_outcome.splits)

text \<open>
  Claim C1, as the code has it. The correlation stage returns "not applicable" exactly
  when the numeric part of the table is empty (no numeric column, or no row), and then it
  writes no file. The guard of the source is \<^verbatim>\<open>numeric_data.empty\<close>, not a count of
  columns: a table with one numeric column and a row is not "not applicable".
\<close>

theorem correlation_not_applicable:
  "(fst (generate_correlation_matrix L E w data) = Inr None
      \<longleftrightarrow> df_empty (select_numeric (frames w data)))
   \<and> (df_empty (select_numeric (frames w data))
      \<longrightarrow> files (snd (generate_correlation_matrix L E w data)) = files w)"
  by (simp add: generate_correlation_matrix_def select_dtypes_def alloc_def saved_fst
      split: sum.splits)

theorem correlation_not_applicable_witness:
  "df_empty (select_numeric (frames (world_of table_text) 0))
   \<and> fst (generate_correlation_matrix test_lib (test_env table_text) (world_of table_text) 0)
       = Inr None
   \<and> files (snd (generate_correlation_matrix test_lib (test_env table_text)
                    (world_of table_text) 0)) = files (world_of table_text)"
proof -
  have e: "df_empty (select_numeric (frames (world_of table_text) 0))"
    by (simp add: df_empty_def select_numeric_def world_of_def alloc_def world0_def
        table_text_def)
  show ?thesis
    using e correlation_not_applicable
      [of test_lib "test_env table_text" "world_of table_text" 0]
    by blast
qed

text \<open>
  Claim C1 as stated fails: a table with a single numeric column (fewer than 2) and one
  row gets its 1 x 1 correlation matrix drawn and saved.
\<close>

theorem correlation_single_column_counterexample:
  "shape1 (select_numeric (frames (world_of table_one) 0)) < 2
   \<and> fst (generate_correlation_matrix test_lib (test_env table_one) (world_of table_one) 0)
       = Inr (Some ''correlation_matrix.png'')
   \<and> files (snd (generate_correlation_matrix test_lib (test_env table_one)
                    (world_of table_one) 0)) ''correlation_matrix.png''
       = Some (Image (Heatmap [[None]]))"
  by (simp add: generate_correlation_matrix_def select_dtypes_def alloc_def saved_def
      save_plot_def df_empty_def shape1_def select_numeric_def world_of_def world0_def
      table_one_def test_lib_def test_env_def Let_def)


lemma correlation_keeps:
  "a < next_addr w \<Longrightarrow>
     frames (snd (generate_correlation_matrix L E w data)) a = frames w a
     \<and> next_addr w \<le> next_addr (snd (generate_correlation_matrix L E w data))"
  by (simp add: generate_correlation_matrix_def select_dtypes_def alloc_def saved_snd
      save_plot_frames)

lemma pca_keeps:
  "a < next_addr w \<Longrightarrow>
     frames (snd (generate_pca_plot L E w data)) a = frames w a
     \<and> next_addr w \<le> next_addr (snd (generate_pca_plot L E w data))"
  by (simp add: generate_pca_plot_def select_dtypes_def dropna_def alloc_def record_call_def
      saved_snd save_plot_frames Let_def split: sum.splits)

lemma dbscan_labels_keeps:
  "a < next_addr w \<Longrightarrow>
     frames (snd (dbscan_labels L w data)) a = frames w a
     \<and> next_addr w \<le> next_addr (snd (dbscan_labels L w data))"
  by (simp add: dbscan_labels_def select_dtypes_def dropna_def alloc_def record_call_def
      setitem_def Let_def split: sum.splits)

lemma dbscan_world:
  "frames (snd (dbscan_clustering L E w data)) = frames (snd (dbscan_labels L w data))"
  "next_addr (snd (dbscan_clustering L E w data)) = next_addr (snd (dbscan_labels L w data))"
  "calls (snd (dbscan_clustering L E w data)) = calls (snd (dbscan_labels L w data))"
  by (cases "dbscan_labels L w data";
      simp add: dbscan_clustering_def plot_clusters_def saved_snd save_plot_frames
        split: sum.splits option.splits)+

lemma dbscan_keeps:
  "a < next_addr w \<Longrightarrow>
     frames (snd (dbscan_clustering L E w data)) a = frames w a
     \<and> next_addr w \<le> next_addr (snd (dbscan_clustering L E w data))"
  by (simp add: dbscan_world dbscan_labels_keeps)

lemma hierarchical_keeps:
  "a < next_addr w \<Longrightarrow>
     frames (snd (hierarchical_clustering L E w data)) a = frames w a
     \<and> next_addr w \<le> next_addr (snd (hierarchical_clustering L E w data))"
  by (simp add: hierarchical_clustering_def select_dtypes_def dropna_def alloc_def
      record_call_def saved_snd save_plot_frames Let_def split: sum.splits)

lemma render_all_keeps:
  assumes "a < next_addr w"
  shows "frames (snd (render_all L E w data)) a = frames w a
     \<and> next_addr w \<le> next_addr (snd (render_all L E w data))"
proof -
  obtain r1 w1 where s1: "generate_correlation_matrix L E w data = (r1, w1)" by fastforce
  obtain r2 w2 where s2: "generate_pca_plot L E w1 data = (r2, w2)" by fastforce
  obtain r3 w3 where s3: "dbscan_clustering L E w2 data = (r3, w3)" by fastforce
  obtain r4 w4 where s4: "hierarchical_clustering L E w3 data = (r4, w4)" by fastforce
  have k1: "frames w1 a = frames w a \<and> next_addr w \<le> next_addr w1"
    using correlation_keeps [OF assms, of L E data] s1 by simp
  then have a1: "a < next_addr w1" using assms by simp
  have k2: "frames w2 a = frames w a \<and> next_addr w \<le> next_addr w2"
    using pca_keeps [OF a1, of L E data] s2 k1 by simp
  then have a2: "a < next_addr w2" using assms by simp
  have k3: "frames w3 a = frames w a \<and> next_addr w \<le> next_addr w3"
    using dbscan_keeps [OF a2, of L E data] s3 k2 by simp
  then have a3: "a < next_addr w3" using assms by simp
  have k4: "frames w4 a = frames w a \<and> next_addr w \<le> next_addr w4"
    using hierarchical_keeps [OF a3, of L E data] s4 k3 by simp
  show ?thesis
    using k1 k2 k3 k4
    by (simp add: render_all_def s1 s2 s3 s4 split: sum.splits)
qed

text \<open>
  Claim C10. Every frame that exists when \<^verbatim>\<open>dbscan_clustering\<close> starts, the table among
  them, is the same frame afterwards: the \<^verbatim>\<open>cluster\<close> column is assigned into the
  frame that \<^verbatim>\<open>dropna\<close> has just created. The same holds across all four
  rendering stages.
\<close>

theorem dbscan_leaves_table_unchanged:
  assumes "a < next_addr w"
  shows "frames (snd (dbscan_clustering L E w data)) a = frames w a
       \<and> frames (snd (render_all L E w data)) a = frames w a"
  using assms dbscan_keeps render_all_keeps by blast


lemma save_plot_fst:
  "fst (save_plot E w fig name) =
     (case savefig E (name @ ''.png'') of Done \<Rightarrow> Inr (name @ ''.png'') | Failed l \<Rightarrow> Inl OSError)"
  by (simp add: save_plot_def Let_def split: io_outcome.splits)

lemma plot_clusters_fst:
  "fst (plot_clusters E w df) =
     (case iloc_col df 0 of
        Inl e \<Rightarrow> Inl e
      | Inr x \<Rightarrow>
          (case iloc_col df 1 of
             Inl e \<Rightarrow> Inl e
           | Inr y \<Rightarrow>
               (case getitem df ''cluster'' of
                  Inl e \<Rightarrow> Inl e
                | Inr hue \<Rightarrow>
                    (case savefig E ''dbscan_clusters.png'' of
                       Done \<Rightarrow> Inr (Some ''dbscan_clusters.png'')
                     | Failed l \<Rightarrow> Inl OSError))))"
  by (simp add: plot_clusters_def saved_fst save_plot_fst split: sum.splits io_outcome.splits)

lemma dbscan_clustering_fst:
  "fst (dbscan_clustering L E w data) =
     (if df_empty (drop_null_rows (select_numeric (frames w data))) then Inr None
      else case scaler_fit_transform L
                  (to_numpy (drop_null_rows (select_numeric (frames w data)))) of
             Inl e \<Rightarrow> Inl e
           | Inr Z \<Rightarrow>
               (case dbscan_fit_predict L (1/2) 5 Z of
                  Inl e \<Rightarrow> Inl e
                | Inr cl \<Rightarrow>
                    if length cl \<noteq> nrows (drop_null_rows (select_numeric (frames w data)))
                    then Inl ValueError
                    else fst (plot_clusters E world0
                           (assign_column (drop_null_rows (select_numeric (frames w data)))
                              ''cluster'' (Numeric (map (\<lambda>l. Some (real_of_int l)) cl))))))"
proof -
  have canon: "fst (plot_clusters E v df) = fst (plot_clusters E world0 df)" for v df
    by (simp only: plot_clusters_fst)
  show ?thesis
    by (simp add: dbscan_clustering_def dbscan_labels_def select_dtypes_def dropna_def
        alloc_def record_call_def setitem_def Let_def canon [of "_\<lparr>frames := _\<rparr>"]
        split: sum.splits)
qed

lemma dbscan_calls:
  "calls (snd (dbscan_labels L w data)) =
     calls w @
       (if df_empty (drop_null_rows (select_numeric (frames w data))) then []
        else Fit_scaler (to_numpy (drop_null_rows (select_numeric (frames w data)))) #
             (case scaler_fit_transform L
                     (to_numpy (drop_null_rows (select_numeric (frames w data)))) of
                Inl e \<Rightarrow> []
              | Inr Z \<Rightarrow> [Fit_DBSCAN (1/2) 5 Z]))"
  by (simp add: dbscan_labels_def select_dtypes_def dropna_def alloc_def
      record_call_def setitem_def Let_def split: sum.splits)

lemma hierarchical_calls:
  "calls (snd (hierarchical_clustering L E w data)) =
     calls w @
       (if df_empty (drop_null_rows (select_numeric (frames w data))) then []
        else [Fit_linkage (to_numpy (drop_null_rows (select_numeric (frames w data))))
                ''ward''])"
  by (simp add: hierarchical_clustering_def select_dtypes_def dropna_def alloc_def
      record_call_def saved_snd save_plot_frames Let_def split: sum.splits)

lemma pca_calls:
  "calls (snd (generate_pca_plot L E w data)) =
     calls w @
       (if shape1 (drop_null_rows (select_numeric (frames w data))) < 2 then []
        else Fit_scaler (to_numpy (drop_null_rows (select_numeric (frames w data)))) #
             (case scaler_fit_transform L
                     (to_numpy (drop_null_rows (select_numeric (frames w data)))) of
                Inl e \<Rightarrow> []
              | Inr Z \<Rightarrow> [Fit_PCA 2 Z]))"
  by (simp add: generate_pca_plot_def select_dtypes_def dropna_def alloc_def
      record_call_def saved_snd save_plot_frames Let_def split: sum.splits)

lemma correlation_calls:
  "calls (snd (generate_correlation_matrix L E w data)) = calls w"
  by (simp add: generate_correlation_matrix_def select_dtypes_def alloc_def saved_snd
      save_plot_frames)

text \<open>
  Claim C2, as the code has it. On a table whose numeric part has a row without missing
  entries, \<^verbatim>\<open>dbscan_clustering\<close> hands the standardized matrix of that part to DBSCAN
  (the same scaler call on the same matrix as \<^verbatim>\<open>generate_pca_plot\<close> makes), while
  \<^verbatim>\<open>hierarchical_clustering\<close> hands the matrix itself to the linkage, not
  standardized.
\<close>

theorem clustering_inputs:
  assumes "\<not> df_empty (drop_null_rows (select_numeric (frames w data)))"
  shows "calls (snd (dbscan_clustering L E w data)) =
           calls w @
             Fit_scaler (to_numpy (drop_null_rows (select_numeric (frames w data)))) #
             (case scaler_fit_transform L
                     (to_numpy (drop_null_rows (select_numeric (frames w data)))) of
                Inl e \<Rightarrow> []
              | Inr Z \<Rightarrow> [Fit_DBSCAN (1/2) 5 Z])
       \<and> calls (snd (hierarchical_clustering L E w data)) =
           calls w @
             [Fit_linkage (to_numpy (drop_null_rows (select_numeric (frames w data))))
                ''ward'']
       \<and> (2 \<le> shape1 (drop_null_rows (select_numeric (frames w data))) \<longrightarrow>
           calls (snd (generate_pca_plot L E w data)) =
             calls w @
               Fit_scaler (to_numpy (drop_null_rows (select_numeric (frames w data)))) #
               (case scaler_fit_transform L
                       (to_numpy (drop_null_rows (select_numeric (frames w data)))) of
                  Inl e \<Rightarrow> []
                | Inr Z \<Rightarrow> [Fit_PCA 2 Z]))"
  using assms by (simp add: dbscan_world dbscan_calls hierarchical_calls pca_calls)


lemma pair_world:
  "frames (world_of table_pair) 0 = table_pair"
  "next_addr (world_of table_pair) = 1"
  "calls (world_of table_pair) = []"
  by (simp_all add: world_of_def alloc_def world0_def)

lemma pair_numeric: "drop_null_rows (select_numeric table_pair) = table_pair"
  by (simp add: drop_null_rows_def select_numeric_def complete_rows_def table_pair_def
      eval_nat_numeral)

lemma pair_shape: "\<not> df_empty table_pair" "shape1 table_pair = 2" "nrows table_pair = 2"
  by (simp_all add: df_empty_def shape1_def table_pair_def)

lemma pair_matrix: "to_numpy table_pair = [[0, 0], [2, 2]]"
  by (simp add: to_numpy_def table_pair_def eval_nat_numeral)

lemma pair_scaled: "standardize [[0, 0], [2, 2]] = Inr [[- 1, - 1], [1, 1]]"
  by (simp add: standardize_def column_mean_def column_scale_def eval_nat_numeral)

lemma test_lib_simps:
  "scaler_fit_transform test_lib = standardize"
  "dbscan_fit_predict test_lib eps k X = Inr (map (\<lambda>r. - 1) X)"
  "linkage test_lib X m = (if length X < 2 then Inl ValueError else Inr [])"
  "pca_fit_transform test_lib n X =
     (if length X < n \<or> \<not> list_all (\<lambda>r. n \<le> length r) X then Inl ValueError
      else Inr (map (take n) X))"
  "corr test_lib df = map (\<lambda>c. map (\<lambda>d. None) (columns df)) (columns df)"
  "describe test_lib df = ''summary''"
  by (simp_all add: test_lib_def)

theorem clustering_inputs_witness:
  "\<not> df_empty (drop_null_rows (select_numeric (frames (world_of table_pair) 0)))
   \<and> calls (snd (dbscan_clustering test_lib (test_env table_pair) (world_of table_pair) 0))
       = [Fit_scaler [[0, 0], [2, 2]], Fit_DBSCAN (1/2) 5 [[- 1, - 1], [1, 1]]]
   \<and> calls (snd (hierarchical_clustering test_lib (test_env table_pair)
                    (world_of table_pair) 0))
       = [Fit_linkage [[0, 0], [2, 2]] ''ward'']
   \<and> 2 \<le> shape1 (drop_null_rows (select_numeric (frames (world_of table_pair) 0)))
   \<and> calls (snd (generate_pca_plot test_lib (test_env table_pair) (world_of table_pair) 0))
       = [Fit_scaler [[0, 0], [2, 2]], Fit_PCA 2 [[- 1, - 1], [1, 1]]]"
proof -
  have ne: "\<not> df_empty (drop_null_rows (select_numeric (frames (world_of table_pair) 0)))"
    by (simp add: pair_world pair_numeric pair_shape)
  have sh: "2 \<le> shape1 (drop_null_rows (select_numeric (frames (world_of table_pair) 0)))"
    by (simp add: pair_world pair_numeric pair_shape)
  show ?thesis
    using ne sh
      clustering_inputs [OF ne, of test_lib "test_env table_pair"]
    by (simp add: pair_world pair_numeric pair_matrix pair_scaled test_lib_simps)
qed

text \<open>
  Claim C2 as stated fails: on the table with columns \<open>x = y = [0, 2]\<close> DBSCAN receives the
  standardized rows \<open>[-1, -1], [1, 1]\<close> and the linkage receives the rows
  \<open>[0, 0], [2, 2]\<close>.
\<close>

theorem clustering_inputs_counterexample:
  "map (\<lambda>(eps, k, X). X)
     (dbscan_inputs (calls (snd (dbscan_clustering test_lib (test_env table_pair)
                                   (world_of table_pair) 0))))
     = [[[- 1, - 1], [1, 1]]]
   \<and> linkage_inputs (calls (snd (hierarchical_clustering test_lib (test_env table_pair)
                                   (world_of table_pair) 0)))
     = [[[0, 0], [2, 2]]]"
  by (simp add: dbscan_world dbscan_calls hierarchical_calls pair_world pair_numeric
      pair_shape pair_matrix pair_scaled test_lib_simps)

theorem dbscan_leaves_table_unchanged_witness:
  "0 < next_addr (world_of table_pair)
   \<and> frames (snd (dbscan_clustering test_lib (test_env table_pair) (world_of table_pair) 0)) 0
       = table_pair
   \<and> frames (snd (render_all test_lib (test_env table_pair) (world_of table_pair) 0)) 0
       = table_pair
   \<and> map fst (columns (frames (snd (dbscan_clustering test_lib (test_env table_pair)
                                      (world_of table_pair) 0)) 2))
       = [''x'', ''y'', ''cluster'']"
proof -
  have a: "0 < next_addr (world_of table_pair)" by (simp add: pair_world)
  have view: "map fst (columns (frames (snd (dbscan_clustering test_lib (test_env table_pair)
                                      (world_of table_pair) 0)) 2))
       = [''x'', ''y'', ''cluster'']"
    by (simp add: dbscan_world dbscan_labels_def select_dtypes_def dropna_def alloc_def
        record_call_def setitem_def Let_def pair_world pair_numeric pair_shape pair_matrix
        pair_scaled test_lib_simps eval_nat_numeral)
      (simp add: assign_column_def table_pair_def)
  show ?thesis
    using a view dbscan_leaves_table_unchanged [OF a, of test_lib "test_env table_pair" 0]
    by (simp add: pair_world)
qed



section \<open>The orchestrator\<close>

lemma load_data_eq:
  "load_data E w path =
     (case read_csv E path of
        None \<Rightarrow> (Inl (SystemExit 1), w)
      | Some df \<Rightarrow>
          (Inr (next_addr w),
           w\<lparr>frames := (frames w)(next_addr w := df), next_addr := Suc (next_addr w)\<rparr>))"
  by (simp add: load_data_def alloc_def split: option.splits)

lemma outlier_detection_world:
  "frames (snd (outlier_detection w data)) a
     = (if a = next_addr w then select_numeric (frames w data) else frames w a)"
  "next_addr (snd (outlier_detection w data)) = Suc (next_addr w)"
  "files (snd (outlier_detection w data)) = files w"
  "calls (snd (outlier_detection w data)) = calls w"
  by (simp_all add: outlier_detection_def select_dtypes_def alloc_def)

lemma http_posts_append: "http_posts (xs @ ys) = http_posts xs + http_posts ys"
  by (induction xs rule: http_posts.induct) auto

lemma correlation_files:
  "p \<noteq> ''correlation_matrix.png'' \<Longrightarrow>
     files (snd (generate_correlation_matrix L E w data)) p = files w p"
  by (simp add: generate_correlation_matrix_def select_dtypes_def alloc_def saved_snd
      save_plot_files)

lemma pca_files:
  "p \<noteq> ''pca_plot.png'' \<Longrightarrow> files (snd (generate_pca_plot L E w data)) p = files w p"
  by (simp add: generate_pca_plot_def select_dtypes_def dropna_def alloc_def record_call_def
      saved_snd save_plot_files Let_def split: sum.splits)

lemma dbscan_labels_files: "files (snd (dbscan_labels L w data)) = files w"
  by (simp add: dbscan_labels_def select_dtypes_def dropna_def alloc_def record_call_def
      setitem_def Let_def split: sum.splits)

lemma plot_clusters_files:
  "p \<noteq> ''dbscan_clusters.png'' \<Longrightarrow> files (snd (plot_clusters E w df)) p = files w p"
  by (simp add: plot_clusters_def saved_snd save_plot_files split: sum.splits)

lemma dbscan_files:
  "p \<noteq> ''dbscan_clusters.png'' \<Longrightarrow> files (snd (dbscan_clustering L E w data)) p = files w p"
  by (cases "dbscan_labels L w data")
     (auto simp: dbscan_clustering_def plot_clusters_files
        dest: arg_cong [where f = "\<lambda>r. files (snd r)"] simp: dbscan_labels_files
        split: sum.splits option.splits)

lemma hierarchical_files:
  "p \<noteq> ''hierarchical_clustering.png'' \<Longrightarrow>
     files (snd (hierarchical_clustering L E w data)) p = files w p"
  by (simp add: hierarchical_clustering_def select_dtypes_def dropna_def alloc_def
      record_call_def saved_snd save_plot_files Let_def split: sum.splits)


lemma stage_posts:
  "http_posts (calls (snd (generate_correlation_matrix L E w data))) = http_posts (calls w)"
  "http_posts (calls (snd (generate_pca_plot L E w data))) = http_posts (calls w)"
  "http_posts (calls (snd (dbscan_clustering L E w data))) = http_posts (calls w)"
  "http_posts (calls (snd (hierarchical_clustering L E w data))) = http_posts (calls w)"
  by (simp_all add: correlation_calls pca_calls dbscan_world dbscan_calls hierarchical_calls
      http_posts_append split: sum.splits)

lemma render_all_files:
  assumes "p \<noteq> ''correlation_matrix.png''" "p \<noteq> ''pca_plot.png''"
    "p \<noteq> ''dbscan_clusters.png''" "p \<noteq> ''hierarchical_clustering.png''"
  shows "files (snd (render_all L E w data)) p = files w p"
proof -
  obtain r1 w1 where s1: "generate_correlation_matrix L E w data = (r1, w1)" by fastforce
  obtain r2 w2 where s2: "generate_pca_plot L E w1 data = (r2, w2)" by fastforce
  obtain r3 w3 where s3: "dbscan_clustering L E w2 data = (r3, w3)" by fastforce
  obtain r4 w4 where s4: "hierarchical_clustering L E w3 data = (r4, w4)" by fastforce
  have k1: "files w1 p = files w p"
    using correlation_files [OF assms(1), of L E w data] s1 by simp
  have k2: "files w2 p = files w1 p"
    using pca_files [OF assms(2), of L E w1 data] s2 by simp
  have k3: "files w3 p = files w2 p"
    using dbscan_files [OF assms(3), of L E w2 data] s3 by simp
  have k4: "files w4 p = files w3 p"
    using hierarchical_files [OF assms(4), of L E w3 data] s4 by simp
  show ?thesis
    using k1 k2 k3 k4 by (simp add: render_all_def s1 s2 s3 s4 split: sum.splits)
qed

lemma render_all_posts:
  "http_posts (calls (snd (render_all L E w data))) = http_posts (calls w)"
proof -
  obtain r1 w1 where s1: "generate_correlation_matrix L E w data = (r1, w1)" by fastforce
  obtain r2 w2 where s2: "generate_pca_plot L E w1 data = (r2, w2)" by fastforce
  obtain r3 w3 where s3: "dbscan_clustering L E w2 data = (r3, w3)" by fastforce
  obtain r4 w4 where s4: "hierarchical_clustering L E w3 data = (r4, w4)" by fastforce
  have k1: "http_posts (calls w1) = http_posts (calls w)"
    using stage_posts(1) [of L E w data] s1 by simp
  have k2: "http_posts (calls w2) = http_posts (calls w1)"
    using stage_posts(2) [of L E w1 data] s2 by simp
  have k3: "http_posts (calls w3) = http_posts (calls w2)"
    using stage_posts(3) [of L E w2 data] s3 by simp
  have k4: "http_posts (calls w4) = http_posts (calls w3)"
    using stage_posts(4) [of L E w3 data] s4 by simp
  show ?thesis
    using k1 k2 k3 k4 by (simp add: render_all_def s1 s2 s3 s4 split: sum.splits)
qed

lemma hierarchical_fst:
  "fst (hierarchical_clustering L E w data) =
     (if df_empty (drop_null_rows (select_numeric (frames w data))) then Inr None
      else case linkage L (to_numpy (drop_null_rows (select_numeric (frames w data)))) ''ward'' of
             Inl e \<Rightarrow> Inl e
           | Inr linked \<Rightarrow>
               (case savefig E ''hierarchical_clustering.png'' of
                  Done \<Rightarrow> Inr (Some ''hierarchical_clustering.png'')
                | Failed l \<Rightarrow> Inl OSError))"
  by (simp add: hierarchical_clustering_def select_dtypes_def dropna_def alloc_def
      record_call_def saved_fst save_plot_fst Let_def split: sum.splits io_outcome.splits)

lemma analyze_after_load:
  assumes "load_data E w path = (Inr data, w0)"
  shows "analyze_and_generate_output L E w path =
           (case render_all L E (snd (outlier_detection w0 data)) data of
              (Inl e, w2) \<Rightarrow> (Inl e, w2)
            | (Inr image_paths, w2) \<Rightarrow>
                narrate_and_save L E w2 (basic_analysis L w0 data) image_paths)"
  by (simp add: analyze_and_generate_output_def assms Let_def case_prod_beta)


lemma load_world:
  assumes "load_data E w path = (Inr data, w0)"
  shows "data = next_addr w" "next_addr w0 = Suc (next_addr w)"
    "files w0 = files w" "calls w0 = calls w"
  using assms by (auto simp: load_data_eq split: option.splits)

lemma render_all_raises:
  assumes "generate_correlation_matrix L E w data = (Inr cm, w1)"
    and "generate_pca_plot L E w1 data = (Inr pp, w2)"
  shows "fst (dbscan_clustering L E w2 data) = Inl e
           \<Longrightarrow> fst (render_all L E w data) = Inl e"
    and "dbscan_clustering L E w2 data = (Inr db, w3)
           \<Longrightarrow> fst (hierarchical_clustering L E w3 data) = Inl e
           \<Longrightarrow> fst (render_all L E w data) = Inl e"
proof -
  show "fst (render_all L E w data) = Inl e" if "fst (dbscan_clustering L E w2 data) = Inl e"
    using that by (cases "dbscan_clustering L E w2 data") (simp add: render_all_def assms)
  show "fst (render_all L E w data) = Inl e"
    if "dbscan_clustering L E w2 data = (Inr db, w3)"
      "fst (hierarchical_clustering L E w3 data) = Inl e"
    using that
    by (cases "hierarchical_clustering L E w3 data") (simp add: render_all_def assms)
qed


lemma correlation_fst:
  "fst (generate_correlation_matrix L E w data) =
     (if df_empty (select_numeric (frames w data)) then Inr None
      else case savefig E ''correlation_matrix.png'' of
             Done \<Rightarrow> Inr (Some ''correlation_matrix.png'')
           | Failed l \<Rightarrow> Inl OSError)"
  by (simp add: generate_correlation_matrix_def select_dtypes_def alloc_def saved_fst
      save_plot_fst split: io_outcome.splits)

lemma pca_fst:
  "fst (generate_pca_plot L E w data) =
     (if shape1 (drop_null_rows (select_numeric (frames w data))) < 2 then Inr None
      else case scaler_fit_transform L
                  (to_numpy (drop_null_rows (select_numeric (frames w data)))) of
             Inl e \<Rightarrow> Inl e
           | Inr scaled \<Rightarrow>
               (case pca_fit_transform L 2 scaled of
                  Inl e \<Rightarrow> Inl e
                | Inr pca_result \<Rightarrow>
                    (case array_col pca_result 0 of
                       Inl e \<Rightarrow> Inl e
                     | Inr x \<Rightarrow>
                         (case array_col pca_result 1 of
                            Inl e \<Rightarrow> Inl e
                          | Inr y \<Rightarrow>
                              (case savefig E ''pca_plot.png'' of
                                 Done \<Rightarrow> Inr (Some ''pca_plot.png'')
                               | Failed l \<Rightarrow> Inl OSError)))))"
  by (simp add: generate_pca_plot_def select_dtypes_def dropna_def alloc_def record_call_def
      saved_fst save_plot_fst Let_def split: sum.splits io_outcome.splits)

lemma stage_same:
  assumes "frames v a = frames w a"
  shows "fst (generate_correlation_matrix L E v a) = fst (generate_correlation_matrix L E w a)"
    and "fst (generate_pca_plot L E v a) = fst (generate_pca_plot L E w a)"
    and "fst (dbscan_clustering L E v a) = fst (dbscan_clustering L E w a)"
    and "fst (hierarchical_clustering L E v a) = fst (hierarchical_clustering L E w a)"
  by (simp_all only: correlation_fst pca_fst dbscan_clustering_fst hierarchical_fst assms)

lemma render_all_fst:
  assumes "data < next_addr w"
  shows "fst (render_all L E w data) =
     (case fst (generate_correlation_matrix L E w data) of
        Inl e \<Rightarrow> Inl e
      | Inr cm \<Rightarrow>
     (case fst (generate_pca_plot L E w data) of
        Inl e \<Rightarrow> Inl e
      | Inr pp \<Rightarrow>
     (case fst (dbscan_clustering L E w data) of
        Inl e \<Rightarrow> Inl e
      | Inr db \<Rightarrow>
     (case fst (hierarchical_clustering L E w data) of
        Inl e \<Rightarrow> Inl e
      | Inr hc \<Rightarrow>
          Inr [(''correlation_matrix'', cm), (''pca_plot'', pp),
               (''dbscan_clusters'', db), (''hierarchical_clustering'', hc)]))))"
proof -
  obtain r1 w1 where s1: "generate_correlation_matrix L E w data = (r1, w1)" by fastforce
  obtain r2 w2 where s2: "generate_pca_plot L E w1 data = (r2, w2)" by fastforce
  obtain r3 w3 where s3: "dbscan_clustering L E w2 data = (r3, w3)" by fastforce
  obtain r4 w4 where s4: "hierarchical_clustering L E w3 data = (r4, w4)" by fastforce
  have k1: "frames w1 data = frames w data \<and> next_addr w \<le> next_addr w1"
    using correlation_keeps [OF assms, of L E data] s1 by simp
  then have a1: "data < next_addr w1" using assms by simp
  have k2: "frames w2 data = frames w data \<and> next_addr w \<le> next_addr w2"
    using pca_keeps [OF a1, of L E data] s2 k1 by simp
  then have a2: "data < next_addr w2" using assms by simp
  have k3: "frames w3 data = frames w data \<and> next_addr w \<le> next_addr w3"
    using dbscan_keeps [OF a2, of L E data] s3 k2 by simp
  have e1: "fst (generate_correlation_matrix L E w data) = r1" by (simp add: s1)
  have e2: "fst (generate_pca_plot L E w data) = r2"
    using stage_same(2) [of w1 data w L E] k1 s2 by simp
  have e3: "fst (dbscan_clustering L E w data) = r3"
    using stage_same(3) [of w2 data w L E] k2 s3 by simp
  have e4: "fst (hierarchical_clustering L E w data) = r4"
    using stage_same(4) [of w3 data w L E] k3 s4 by simp
  show ?thesis
    unfolding e1 e2 e3 e4
    by (simp add: render_all_def s1 s2 s3 s4 split: sum.splits)
qed


lemma loaded_table:
  assumes "load_data E w path = (Inr data, w0)"
  shows "data < next_addr (snd (outlier_detection w0 data))"
    and "frames (snd (outlier_detection w0 data)) data = frames w0 data"
  using load_world(1,2) [OF assms] by (simp_all add: outlier_detection_world)

lemma render_untouched:
  assumes "load_data E w path = (Inr data, w0)"
  shows "http_posts (calls (snd (render_all L E (snd (outlier_detection w0 data)) data)))
           = http_posts (calls w)"
    and "files (snd (render_all L E (snd (outlier_detection w0 data)) data)) ''README.md''
           = files w ''README.md''"
  using load_world(3,4) [OF assms]
  by (simp_all add: render_all_posts render_all_files outlier_detection_world)


lemma get_ai_story_fails:
  assumes "http_reply E = Connection_error
           \<or> (http_reply E = Response status body \<and> 400 \<le> status \<and> status < 600)"
  shows "get_ai_story E w s m v = (Inr (JStr unavailable), record_call (Http_post s m v) w)"
  using assms by (auto simp: get_ai_story_def Let_def)

lemma narrate_and_save_fails:
  assumes "http_reply E = Connection_error
           \<or> (http_reply E = Response status body \<and> 400 \<le> status \<and> status < 600)"
  shows "narrate_and_save L E w a image_paths =
           (case open_write E ''README.md'' of
              Done \<Rightarrow>
                (Inr (JStr unavailable, image_paths),
                 (record_call (Http_post (summary a) (missing_values a) image_paths) w)
                   \<lparr>files := (files w)(''README.md'' :=
                                Some (Text (''Dataset Analysis: '' @ unavailable)))\<rparr>)
            | Failed left \<Rightarrow>
                (Inl (SystemExit 1),
                 (record_call (Http_post (summary a) (missing_values a) image_paths) w)
                   \<lparr>files := (files w)(''README.md'' := left)\<rparr>))"
  by (simp add: narrate_and_save_def get_ai_story_fails [OF assms] save_readme_def
      record_call_def unavailable_def split: io_outcome.splits)

text \<open>
  Claim C7. In a run that reaches the narrative step (credential set, table loaded, all
  four stages returned) and whose HTTP request fails (no connection, or a status from 400
  to 599), the request is made once, \<^verbatim>\<open>README.md\<close> is written with the heading followed
  by the fixed placeholder sentence, and the exit status is 0. Writing the file is the
  operating system's part: the statement also says what the run does where the write is
  refused (\<^verbatim>\<open>save_readme\<close> then exits with status 1).
\<close>

theorem narrative_failure_report:
  assumes token: "AIPROXY_TOKEN E = Some t" "t \<noteq> []"
    and load: "load_data E w path = (Inr data, w0)"
    and rendered: "fst (render_all L E (snd (outlier_detection w0 data)) data) = Inr image_paths"
    and http: "http_reply E = Connection_error
               \<or> (http_reply E = Response status body \<and> 400 \<le> status \<and> status < 600)"
  shows "http_posts (calls (snd (run_script L E w [prog, path]))) = Suc (http_posts (calls w))
       \<and> (open_write E ''README.md'' = Done \<longrightarrow>
            fst (run_script L E w [prog, path]) = 0
            \<and> files (snd (run_script L E w [prog, path])) ''README.md''
                = Some (Text (''Dataset Analysis: '' @ unavailable)))
       \<and> (open_write E ''README.md'' = Failed left \<longrightarrow>
            fst (run_script L E w [prog, path]) = 1
            \<and> files (snd (run_script L E w [prog, path])) ''README.md'' = left)"
proof -
  let ?r = "render_all L E (snd (outlier_detection w0 data)) data"
  have run: "analyze_and_generate_output L E w path
               = narrate_and_save L E (snd ?r) (basic_analysis L w0 data) image_paths"
    using rendered by (cases ?r) (simp add: analyze_after_load [OF load])
  have posts: "http_posts (calls (snd ?r)) = http_posts (calls w)"
    by (rule render_untouched(1) [OF load])
  show ?thesis
    using token posts
    by (cases "open_write E ''README.md''")
       (simp_all add: run_script_def main_def run narrate_and_save_fails [OF http]
          record_call_def http_posts_append)
qed



lemma load_concrete:
  "read_csv E path = Some df \<Longrightarrow> load_data E world0 path = (Inr 0, world_of df)"
  by (simp add: load_data_eq world_of_def alloc_def world0_def)

lemma world_of_simps:
  "frames (world_of df) 0 = df"
  "next_addr (world_of df) = 1"
  "files (world_of df) p = None"
  "calls (world_of df) = []"
  "files world0 p = None"
  "calls world0 = []"
  by (simp_all add: world_of_def alloc_def world0_def)


lemma row_numeric: "drop_null_rows (select_numeric table_row) = table_row"
  by (simp add: drop_null_rows_def select_numeric_def complete_rows_def table_row_def)

lemma row_matrix: "to_numpy table_row = [[1, 2]]"
  by (simp add: to_numpy_def table_row_def)

lemma row_scaled: "standardize [[1, 2]] = Inr [[0, 0]]"
  by (simp add: standardize_def column_mean_def column_scale_def eval_nat_numeral)

lemma gap_numeric: "drop_null_rows (select_numeric table_gap) = \<lparr>nrows = 0, columns = [(''x'', Numeric []), (''y'', Numeric [])]\<rparr>"
  by (simp add: drop_null_rows_def select_numeric_def complete_rows_def table_gap_def
      eval_nat_numeral)

lemma row_shape: "shape1 table_row = 2"
  by (simp add: shape1_def table_row_def)

lemma pca_never_skips:
  "2 \<le> shape1 (drop_null_rows (select_numeric (frames w data)))
     \<Longrightarrow> fst (generate_pca_plot L E w data) \<noteq> Inr None"
  by (simp add: pca_fst split: sum.splits io_outcome.splits)

text \<open>
  Claim C3 fails on the code. With two numeric columns, \<^verbatim>\<open>generate_pca_plot\<close> never
  returns "not applicable", whatever the library does: its only guard counts columns.
  With one retained row (\<open>table_row\<close>) the 1 x 2 matrix reaches the scaler and the PCA,
  which rejects it; with no retained row (\<open>table_gap\<close>) the scaler rejects the empty
  matrix, while both clustering stages return "not applicable" on that same table.
\<close>

theorem pca_degenerate_rows_raise:
  "fst (generate_pca_plot L E (world_of table_row) 0) \<noteq> Inr None
   \<and> fst (generate_pca_plot test_lib (test_env table_row) (world_of table_row) 0)
       = Inl ValueError
   \<and> pca_inputs (calls (snd (generate_pca_plot test_lib (test_env table_row)
                               (world_of table_row) 0))) = [[[0, 0]]]
   \<and> fst (generate_pca_plot L E (world_of table_gap) 0) \<noteq> Inr None
   \<and> fst (generate_pca_plot test_lib (test_env table_gap) (world_of table_gap) 0)
       = Inl ValueError
   \<and> fst (dbscan_clustering test_lib (test_env table_gap) (world_of table_gap) 0) = Inr None
   \<and> fst (hierarchical_clustering test_lib (test_env table_gap) (world_of table_gap) 0)
       = Inr None"
proof (intro conjI)
  show "fst (generate_pca_plot L E (world_of table_row) 0) \<noteq> Inr None"
    by (rule pca_never_skips) (simp add: world_of_simps row_numeric row_shape)
  show "fst (generate_pca_plot test_lib (test_env table_row) (world_of table_row) 0)
       = Inl ValueError"
    by (simp add: pca_fst world_of_simps row_numeric row_matrix row_scaled row_shape
        test_lib_simps)
  show "pca_inputs (calls (snd (generate_pca_plot test_lib (test_env table_row)
                               (world_of table_row) 0))) = [[[0, 0]]]"
    by (simp add: pca_calls world_of_simps row_numeric row_matrix row_scaled row_shape
        test_lib_simps)
  show "fst (generate_pca_plot L E (world_of table_gap) 0) \<noteq> Inr None"
    by (rule pca_never_skips) (simp add: world_of_simps gap_numeric shape1_def)
  show "fst (generate_pca_plot test_lib (test_env table_gap) (world_of table_gap) 0)
       = Inl ValueError"
    by (simp add: pca_fst world_of_simps gap_numeric test_lib_simps shape1_def to_numpy_def
        standardize_def)
  show "fst (dbscan_clustering test_lib (test_env table_gap) (world_of table_gap) 0) = Inr None"
    by (simp add: dbscan_clustering_fst world_of_simps gap_numeric df_empty_def)
  show "fst (hierarchical_clustering test_lib (test_env table_gap) (world_of table_gap) 0)
       = Inr None"
    by (simp add: hierarchical_fst world_of_simps gap_numeric df_empty_def)
qed



lemma run_script_narrates:
  assumes "AIPROXY_TOKEN E = Some t" "t \<noteq> []"
    and "load_data E w path = (Inr data, w0)"
    and "fst (render_all L E (snd (outlier_detection w0 data)) data) = Inr image_paths"
  shows "run_script L E w [prog, path] =
           (case narrate_and_save L E
                   (snd (render_all L E (snd (outlier_detection w0 data)) data))
                   (basic_analysis L w0 data) image_paths of
              (Inl (SystemExit c), w') \<Rightarrow> (c, w')
            | (Inl e, w') \<Rightarrow> (1, w')
            | (Inr r, w') \<Rightarrow> (0, w'))"
  using assms(1,2,4)
  by (cases "render_all L E (snd (outlier_detection w0 data)) data")
     (simp add: run_script_def main_def analyze_after_load [OF assms(3)])











lemma env_simps:
  "read_csv (env_no_heatmap df) ''data.csv'' = Some df"
  "AIPROXY_TOKEN (env_no_heatmap df) = Some ''token''"
  "savefig (env_no_heatmap df) p
     = (if p = ''correlation_matrix.png'' then Failed None else Done)"
  "read_csv (env_offline df) ''data.csv'' = Some df"
  "AIPROXY_TOKEN (env_offline df) = Some ''token''"
  "http_reply (env_offline df) = Connection_error"
  "open_write (env_offline df) p = Done"
  "read_csv (env_offline_readonly df) ''data.csv'' = Some df"
  "AIPROXY_TOKEN (env_offline_readonly df) = Some ''token''"
  "http_reply (env_offline_readonly df) = Connection_error"
  "open_write (env_offline_readonly df) p = Failed None"
  by (simp_all add: env_no_heatmap_def env_offline_def env_offline_readonly_def test_env_def)

lemma text_numeric:
  "select_numeric table_text = \<lparr>nrows = 2, columns = []\<rparr>"
  "drop_null_rows \<lparr>nrows = 2, columns = []\<rparr> = \<lparr>nrows = 2, columns = []\<rparr>"
  by (simp_all add: drop_null_rows_def select_numeric_def complete_rows_def table_text_def
      eval_nat_numeral)

lemma text_stages:
  assumes "frames w a = table_text"
  shows "fst (generate_correlation_matrix L E w a) = Inr None"
    and "fst (generate_pca_plot L E w a) = Inr None"
    and "fst (dbscan_clustering L E w a) = Inr None"
    and "fst (hierarchical_clustering L E w a) = Inr None"
  by (simp_all add: correlation_fst pca_fst dbscan_clustering_fst hierarchical_fst assms
      text_numeric df_empty_def shape1_def)

lemma text_render:
  assumes "load_data E world0 ''data.csv'' = (Inr 0, world_of table_text)"
  shows "fst (render_all L E (snd (outlier_detection (world_of table_text) 0)) 0)
           = Inr [(''correlation_matrix'', None), (''pca_plot'', None),
                  (''dbscan_clusters'', None), (''hierarchical_clustering'', None)]"
proof -
  have "frames (snd (outlier_detection (world_of table_text) 0)) 0 = table_text"
    by (simp add: loaded_table(2) [OF assms] world_of_simps)
  then show ?thesis
    by (simp add: render_all_fst [OF loaded_table(1) [OF assms]] text_stages)
qed

theorem narrative_failure_report_witness:
  "AIPROXY_TOKEN (env_offline table_text) = Some ''token''
   \<and> load_data (env_offline table_text) world0 ''data.csv'' = (Inr 0, world_of table_text)
   \<and> fst (render_all test_lib (env_offline table_text)
             (snd (outlier_detection (world_of table_text) 0)) 0)
       = Inr [(''correlation_matrix'', None), (''pca_plot'', None),
              (''dbscan_clusters'', None), (''hierarchical_clustering'', None)]
   \<and> http_reply (env_offline table_text) = Connection_error
   \<and> open_write (env_offline table_text) ''README.md'' = Done
   \<and> http_posts (calls (snd (run_script test_lib (env_offline table_text) world0
                                [''autolysis.py'', ''data.csv'']))) = 1
   \<and> fst (run_script test_lib (env_offline table_text) world0 [''autolysis.py'', ''data.csv''])
       = 0
   \<and> files (snd (run_script test_lib (env_offline table_text) world0
                     [''autolysis.py'', ''data.csv''])) ''README.md''
       = Some (Text (''Dataset Analysis: Error: Unable to generate narrative. ''
                     @ ''Please check the AI service.''))
   \<and> open_write (env_offline_readonly table_text) ''README.md'' = Failed None
   \<and> fst (run_script test_lib (env_offline_readonly table_text) world0
             [''autolysis.py'', ''data.csv'']) = 1"
proof -
  have tok: "AIPROXY_TOKEN (env_offline table_text) = Some ''token''" "''token'' \<noteq> []"
    and tok': "AIPROXY_TOKEN (env_offline_readonly table_text) = Some ''token''"
    by (simp_all add: env_simps)
  have load: "load_data (env_offline table_text) world0 ''data.csv''
                = (Inr 0, world_of table_text)"
    and load': "load_data (env_offline_readonly table_text) world0 ''data.csv''
                = (Inr 0, world_of table_text)"
    by (simp_all add: load_concrete env_simps)
  have http: "http_reply (env_offline table_text) = Connection_error
              \<or> (http_reply (env_offline table_text) = Response 0 None \<and> 400 \<le> (0::nat)
                 \<and> (0::nat) < 600)"
    and http': "http_reply (env_offline_readonly table_text) = Connection_error
              \<or> (http_reply (env_offline_readonly table_text) = Response 0 None
                 \<and> 400 \<le> (0::nat) \<and> (0::nat) < 600)"
    by (simp_all add: env_simps)
  note a = narrative_failure_report
    [OF tok load text_render [OF load, of test_lib] http,
      of "''autolysis.py''" None]
  note b = narrative_failure_report
    [OF tok' tok(2) load' text_render [OF load', of test_lib] http',
      of "''autolysis.py''" None]
  show ?thesis
    using a b tok(1) load text_render [OF load, of test_lib]
    by (simp add: env_simps world_of_simps unavailable_def)
qed








end
